theory Spec2Isabelle
  imports Main "HOL-Library.Sublist"
begin

section \<open>Values and errors\<close>

text \<open>
  The flight assistant (\<^verbatim>\<open>app.py\<close>) reads a JSON request, asks a language model for a
  JSON object, and works on the decoded values. The values that occur as fields are JSON
  null, booleans, integers and strings; this development covers these four kinds and
  leaves out numbers with a fraction, arrays and nested objects.
  Strings are byte strings: characters outside ASCII are neither spaces nor letters with
  an upper case.
\<close>

datatype json = JNull | JBool bool | JInt int | JStr string

text \<open>The exceptions that the handler's code can raise; each ends in the catch-all
  \<^verbatim>\<open>except Exception\<close> of \<^verbatim>\<open>parse_query\<close>.\<close>

datatype py_error =
    AttributeError
  | TypeError
  | ValueError
  | OverflowError
  | JSONDecodeError
  | CompleterError

text \<open>Sequencing of steps that may raise: the first exception ends the computation.\<close>

definition and_then :: "py_error + 'a \<Rightarrow> ('a \<Rightarrow> py_error + 'b) \<Rightarrow> py_error + 'b" where
  "and_then r f = (case r of Inl e \<Rightarrow> Inl e | Inr x \<Rightarrow> f x)"

text \<open>Python's truth value of a decoded JSON value (\<^verbatim>\<open>if x\<close>, \<^verbatim>\<open>not x\<close>, \<^verbatim>\<open>x and y\<close>).\<close>

fun truthy :: "json \<Rightarrow> bool" where
  "truthy JNull = False"
| "truthy (JBool b) = b"
| "truthy (JInt i) = (i \<noteq> 0)"
| "truthy (JStr s) = (s \<noteq> [])"

section \<open>Strings\<close>

definition is_upper :: "char \<Rightarrow> bool" where
  "is_upper c = (65 \<le> (of_char c :: nat) \<and> (of_char c :: nat) \<le> 90)"

definition lower_char :: "char \<Rightarrow> char" where
  "lower_char c = (if is_upper c then char_of ((of_char c :: nat) + 32) else c)"

text \<open>\<^verbatim>\<open>str.lower()\<close>.\<close>

definition lower :: "string \<Rightarrow> string" where
  "lower s = map lower_char s"

text \<open>The characters \<^verbatim>\<open>str.strip()\<close> removes: tab, line feed, vertical tab, form feed,
  carriage return, the separators 28 to 31, and the space.\<close>

definition is_space :: "char \<Rightarrow> bool" where
  "is_space c = (let n = (of_char c :: nat) in (9 \<le> n \<and> n \<le> 13) \<or> (28 \<le> n \<and> n \<le> 32))"

text \<open>\<^verbatim>\<open>str.strip()\<close>.\<close>

definition strip :: "string \<Rightarrow> string" where
  "strip s = rev (dropWhile is_space (rev (dropWhile is_space s)))"

definition is_digit :: "char \<Rightarrow> bool" where
  "is_digit c = (48 \<le> (of_char c :: nat) \<and> (of_char c :: nat) \<le> 57)"

definition digit_val :: "char \<Rightarrow> nat" where
  "digit_val c = (of_char c :: nat) - 48"

definition digit_char :: "nat \<Rightarrow> char" where
  "digit_char n = char_of (48 + n)"

text \<open>The value of a run of decimal digits, most significant first.\<close>

definition nat_of_digits :: "string \<Rightarrow> nat" where
  "nat_of_digits ds = foldl (\<lambda>acc c. 10 * acc + digit_val c) 0 ds"

text \<open>\<^verbatim>\<open>sub in s\<close> on strings is \<^const>\<open>sublist\<close>: \<open>s\<close> has \<open>sub\<close> as a contiguous part.\<close>

definition contains :: "string \<Rightarrow> string \<Rightarrow> bool" where
  "contains sub s = sublist sub s"

section \<open>Dates\<close>

text \<open>
  A \<^verbatim>\<open>datetime\<close>: the calendar date and the time of day, in microseconds since midnight.
  Python keeps years 1 to 9999.
\<close>

record datetime =
  dt_year :: nat
  dt_month :: nat
  dt_day :: nat
  dt_tod :: nat

definition is_leap :: "nat \<Rightarrow> bool" where
  "is_leap y = (y mod 4 = 0 \<and> (y mod 100 \<noteq> 0 \<or> y mod 400 = 0))"

definition days_in_month :: "nat \<Rightarrow> nat \<Rightarrow> nat" where
  "days_in_month y m =
     (if m = 2 then (if is_leap y then 29 else 28)
      else if m = 4 \<or> m = 6 \<or> m = 9 \<or> m = 11 then 30 else 31)"

definition valid_datetime :: "datetime \<Rightarrow> bool" where
  "valid_datetime d =
     (1 \<le> dt_year d \<and> dt_year d \<le> 9999 \<and> 1 \<le> dt_month d \<and> dt_month d \<le> 12 \<and>
      1 \<le> dt_day d \<and> dt_day d \<le> days_in_month (dt_year d) (dt_month d) \<and>
      dt_tod d < 86400000000)"

text \<open>The day after \<open>d\<close>, at the same time of day; there is none after 9999-12-31
  (\<^verbatim>\<open>OverflowError: date value out of range\<close>).\<close>

definition next_day :: "datetime \<Rightarrow> py_error + datetime" where
  "next_day d =
     (if dt_day d < days_in_month (dt_year d) (dt_month d) then Inr (d\<lparr>dt_day := dt_day d + 1\<rparr>)
      else if dt_month d < 12 then Inr (d\<lparr>dt_month := dt_month d + 1, dt_day := 1\<rparr>)
      else if dt_year d < 9999 then Inr (d\<lparr>dt_year := dt_year d + 1, dt_month := 1, dt_day := 1\<rparr>)
      else Inl OverflowError)"

fun days_later :: "datetime \<Rightarrow> nat \<Rightarrow> py_error + datetime" where
  "days_later d 0 = Inr d"
| "days_later d (Suc n) = and_then (next_day d) (\<lambda>d'. days_later d' n)"

text \<open>\<^verbatim>\<open>today + timedelta(days=n)\<close> for \<open>n \<ge> 0\<close>: \<^verbatim>\<open>timedelta\<close> itself refuses more than
  999999999 days, and the sum must stay a date.\<close>

definition add_days :: "datetime \<Rightarrow> nat \<Rightarrow> py_error + datetime" where
  "add_days today n = (if n > 999999999 then Inl OverflowError else days_later today n)"

definition pad2 :: "nat \<Rightarrow> string" where
  "pad2 n = [digit_char (n div 10 mod 10), digit_char (n mod 10)]"

definition pad4 :: "nat \<Rightarrow> string" where
  "pad4 n = [digit_char (n div 1000 mod 10), digit_char (n div 100 mod 10),
             digit_char (n div 10 mod 10), digit_char (n mod 10)]"

text \<open>\<^verbatim>\<open>d.strftime('%Y-%m-%d')\<close>, the year written with four digits.\<close>

definition strftime_ymd :: "datetime \<Rightarrow> string" where
  "strftime_ymd d = pad4 (dt_year d) @ ''-'' @ pad2 (dt_month d) @ ''-'' @ pad2 (dt_day d)"

text \<open>\<^verbatim>\<open>datetime.strptime(s, "%Y-%m-%d")\<close> on the ten-character form that
  \<^const>\<open>strftime_ymd\<close> writes, the only strings the handler passes to it: midnight of that
  day, or \<^verbatim>\<open>ValueError\<close>.\<close>

definition strptime_ymd :: "string \<Rightarrow> py_error + datetime" where
  "strptime_ymd s =
     (case s of
        [y1, y2, y3, y4, s1, m1, m2, s2, d1, d2] \<Rightarrow>
          (if s1 = CHR ''-'' \<and> s2 = CHR ''-'' \<and> list_all is_digit [y1, y2, y3, y4, m1, m2, d1, d2]
           then (let d = \<lparr>dt_year = nat_of_digits [y1, y2, y3, y4],
                           dt_month = nat_of_digits [m1, m2],
                           dt_day = nat_of_digits [d1, d2], dt_tod = 0\<rparr>
                 in if valid_datetime d then Inr d else Inl ValueError)
           else Inl ValueError)
      | _ \<Rightarrow> Inl ValueError)"

text \<open>\<^verbatim>\<open>datetime(*time_struct[:6])\<close>: the constructor checks every field.\<close>

type_synonym tm6 = "int \<times> int \<times> int \<times> int \<times> int \<times> int"

definition mk_datetime :: "tm6 \<Rightarrow> py_error + datetime" where
  "mk_datetime t =
     (case t of (y, mo, d, h, mi, s) \<Rightarrow>
        (if 1 \<le> y \<and> y \<le> 9999 \<and> 1 \<le> mo \<and> mo \<le> 12 \<and> 1 \<le> d \<and>
            d \<le> int (days_in_month (nat y) (nat mo)) \<and>
            0 \<le> h \<and> h \<le> 23 \<and> 0 \<le> mi \<and> mi \<le> 59 \<and> 0 \<le> s \<and> s \<le> 59
         then Inr \<lparr>dt_year = nat y, dt_month = nat mo, dt_day = nat d,
                   dt_tod = nat (((h * 60 + mi) * 60 + s) * 1000000)\<rparr>
         else Inl ValueError))"

section \<open>The collaborators\<close>

text \<open>
  What the handler calls and does not define: the clock, the language model
  (\<^verbatim>\<open>ollama.chat\<close>, whose \<open>n\<close>-th call may answer differently from the one before),
  \<^verbatim>\<open>json.loads\<close> on a text that starts with an opening brace (an object or an exception),
  \<^verbatim>\<open>parsedatetime.Calendar().parse\<close> (the first six fields of the time structure and the
  status) and \<^verbatim>\<open>dateutil.parser.parse\<close> with \<^verbatim>\<open>fuzzy=True\<close> (\<open>None\<close> when it raises).
\<close>

record env =
  now :: datetime
  chat :: "nat \<Rightarrow> string \<Rightarrow> py_error + string"
  json_loads :: "string \<Rightarrow> py_error + (string \<rightharpoonup> json)"
  cal_parse :: "string \<Rightarrow> datetime \<Rightarrow> tm6 \<times> int"
  fuzzy_parse :: "string \<Rightarrow> datetime \<Rightarrow> datetime option"

section \<open>Date normalisation\<close>

text \<open>\<^verbatim>\<open>re.search(r'after (\d+) days?', s)\<close>: group 1 of the leftmost match. The digits
  must be followed by a space, so the group is the whole run of digits.\<close>

definition match_after_days :: "string \<Rightarrow> string option" where
  "match_after_days s =
     (if prefix ''after '' s
      then (let ds = takeWhile is_digit (drop 6 s); rest = dropWhile is_digit (drop 6 s)
            in if ds \<noteq> [] \<and> prefix '' day'' rest then Some ds else None)
      else None)"

fun search_after_days :: "string \<Rightarrow> string option" where
  "search_after_days [] = None"
| "search_after_days (c # cs) =
     (case match_after_days (c # cs) of Some ds \<Rightarrow> Some ds | None \<Rightarrow> search_after_days cs)"

text \<open>A date that was computed, written as \<^verbatim>\<open>YYYY-MM-DD\<close>; an exception passes through.
  In \<^const>\<open>nat_of_digits\<close> the digits of \<open>N\<close> are converted whatever their number: where
  the interpreter limits it, \<^verbatim>\<open>int\<close> raises for a number that the addition refuses
  anyway.\<close>

definition formatted :: "py_error + datetime \<Rightarrow> py_error + string option" where
  "formatted r = and_then r (\<lambda>d. Inr (Some (strftime_ymd d)))"

definition parse_date_string :: "env \<Rightarrow> json \<Rightarrow> datetime option \<Rightarrow> py_error + string option" where
  "parse_date_string e natural_date base_date =
     (if \<not> truthy natural_date then Inr None
      else case natural_date of
        JStr s \<Rightarrow>
          (let natural_date_lower = strip (lower s);
               today = (case base_date of Some b \<Rightarrow> b | None \<Rightarrow> now e)
           in if contains ''day after tomorrow'' natural_date_lower
              then formatted (add_days today 2)
              else if contains ''tomorrow'' natural_date_lower
              then formatted (add_days today 1)
              else case search_after_days natural_date_lower of
                Some ds \<Rightarrow> formatted (add_days today (nat_of_digits ds))
              | None \<Rightarrow>
                  (case cal_parse e s today of
                     (time_struct, parse_status) \<Rightarrow>
                       if parse_status \<noteq> 0 then formatted (mk_datetime time_struct)
                       else (case fuzzy_parse e s today of
                               Some d \<Rightarrow> Inr (Some (strftime_ymd d))
                             | None \<Rightarrow> Inr None)))
      | _ \<Rightarrow> Inl AttributeError)"

section \<open>Conversions of values\<close>

fun show_nat :: "nat \<Rightarrow> string" where
  "show_nat n = (if n < 10 then [digit_char n] else show_nat (n div 10) @ [digit_char (n mod 10)])"

declare show_nat.simps [simp del]

text \<open>\<^verbatim>\<open>str(value)\<close>.\<close>

fun py_str :: "json \<Rightarrow> string" where
  "py_str JNull = ''None''"
| "py_str (JBool b) = (if b then ''True'' else ''False'')"
| "py_str (JInt i) = (if i < 0 then ''-'' @ show_nat (nat (- i)) else show_nat (nat i))"
| "py_str (JStr s) = s"

text \<open>The digits of an integer literal given to \<^verbatim>\<open>int()\<close>: decimal digits, with single
  underscores allowed between two digits.\<close>

fun digits_us :: "string \<Rightarrow> bool" where
  "digits_us [] = False"
| "digits_us [c] = is_digit c"
| "digits_us (c # d # cs) =
     (is_digit c \<and> (if d = CHR ''_'' then digits_us cs else digits_us (d # cs)))"

definition int_of_string :: "string \<Rightarrow> py_error + int" where
  "int_of_string s =
     (let t = strip s;
          neg = (t \<noteq> [] \<and> hd t = CHR ''-'');
          body = (if t \<noteq> [] \<and> (hd t = CHR ''-'' \<or> hd t = CHR ''+'') then tl t else t)
      in if digits_us body
         then (let v = int (nat_of_digits (filter (\<lambda>c. c \<noteq> CHR ''_'') body))
               in Inr (if neg then - v else v))
         else Inl ValueError)"

text \<open>\<^verbatim>\<open>int(value)\<close> (the interpreter's configurable limit on the number of digits of a
  string is left out).\<close>

fun py_int :: "json \<Rightarrow> py_error + int" where
  "py_int JNull = Inl TypeError"
| "py_int (JBool b) = Inr (if b then 1 else 0)"
| "py_int (JInt i) = Inr i"
| "py_int (JStr s) = int_of_string s"

text \<open>\<^verbatim>\<open>value.lower()\<close>: only strings have the method.\<close>

fun py_lower :: "json \<Rightarrow> py_error + string" where
  "py_lower (JStr s) = Inr (lower s)"
| "py_lower _ = Inl AttributeError"

text \<open>\<^verbatim>\<open>parsed.get(key)\<close> and \<^verbatim>\<open>parsed.get(key, default)\<close>.\<close>

definition get :: "(string \<rightharpoonup> json) \<Rightarrow> string \<Rightarrow> json" where
  "get parsed key = (case parsed key of None \<Rightarrow> JNull | Some v \<Rightarrow> v)"

definition get_default :: "(string \<rightharpoonup> json) \<Rightarrow> string \<Rightarrow> json \<Rightarrow> json" where
  "get_default parsed key dflt = (case parsed key of None \<Rightarrow> dflt | Some v \<Rightarrow> v)"

text \<open>\<^verbatim>\<open>not x\<close> for a date that is \<^verbatim>\<open>None\<close> or a string.\<close>

definition absent :: "string option \<Rightarrow> bool" where
  "absent x = (case x of None \<Rightarrow> True | Some s \<Rightarrow> s = [])"

section \<open>The prompt\<close>

definition dq :: string where
  "dq = [CHR 0x22]"

definition nl :: string where
  "nl = [CHR 0x0A]"

definition build_prompt :: "json \<Rightarrow> string" where
  "build_prompt query =
     nl @ ''You are a flight booking assistant.'' @ nl @ nl @
     ''Extract and return only JSON with the following keys:'' @ nl @
     ''- from: departure city'' @ nl @
     ''- to: arrival city'' @ nl @
     ''- depdate: departure date (natural format like '' @ dq @ ''after 5 days'' @ dq @
       '' allowed)'' @ nl @
     ''- retdate: return date (optional)'' @ nl @
     ''- adults: number of adults (default: 1)'' @ nl @
     ''- children: number of children (default: 0)'' @ nl @
     ''- infants: number of infants (default: 0)'' @ nl @
     ''- cabin: cabin class like economy, business (default: economy)'' @ nl @
     ''- airline_include: preferred airline if mentioned (e.g., '' @ dq @ ''by Indigo'' @ dq @
       '')'' @ nl @ nl @
     [CHR 0xE2, CHR 0x9A, CHR 0xA0, CHR 0xEF, CHR 0xB8, CHR 0x8F] @
     '' Only assign a value if it is clearly mentioned in the query. '' @ nl @
     ''If a field is missing, set its value to null or '' @ dq @ ''Not Provided'' @ dq @
       '',except:'' @ nl @
     ''- Set '' @ dq @ ''adults'' @ dq @ '' to 1 by default'' @ nl @
     ''- Set '' @ dq @ ''children'' @ dq @ '' and '' @ dq @ ''infants'' @ dq @
       '' to 0 by default'' @ nl @
     ''- Set '' @ dq @ ''cabin'' @ dq @ '' to '' @ dq @ ''economy'' @ dq @ '' by default'' @ nl @
     nl @
     ''Return valid JSON only. Do not explain anything.'' @ nl @ nl @
     ''Query: '' @ dq @ py_str query @ dq @ nl"

section \<open>Field validation\<close>

definition is_missing :: "json \<Rightarrow> bool" where
  "is_missing v =
     (if v = JNull then True
      else (let value = lower (strip (py_str v))
            in value \<in> set ['''', ''none'', ''not provided'',
                             ''departure city (not provided)'',
                             ''arrival city (not provided)'']))"

text \<open>\<^verbatim>\<open>if depfrom and "from" not in user_query.lower(): depfrom = None\<close>, and the same
  for \<^verbatim>\<open>arrto\<close> and \<^verbatim>\<open>"to"\<close>. The query is lowercased only when the value is true.\<close>

definition cross_check :: "json \<Rightarrow> string \<Rightarrow> json \<Rightarrow> py_error + json" where
  "cross_check user_query word v =
     (if truthy v
      then and_then (py_lower user_query)
             (\<lambda>q. Inr (if \<not> contains word q then JNull else v))
      else Inr v)"

section \<open>Extraction of the model's JSON\<close>

text \<open>\<^verbatim>\<open>re.search(r"\{.*\}", content, re.DOTALL)\<close>: the leftmost opening brace that has a
  closing brace after it is the first opening brace, and the greedy \<^verbatim>\<open>.*\<close> runs to the
  last closing brace.\<close>

definition json_span :: "string \<Rightarrow> string option" where
  "json_span content =
     (let from_open = dropWhile (\<lambda>c. c \<noteq> CHR 0x7B) content;
          span = rev (dropWhile (\<lambda>c. c \<noteq> CHR 0x7D) (rev from_open))
      in if span = [] then None else Some span)"

section \<open>The request handler\<close>

text \<open>The local variables of \<^verbatim>\<open>parse_query\<close> once the extracted object has been read
  (after line 111 of \<^verbatim>\<open>app.py\<close>).\<close>

record locals =
  depfrom :: json
  arrto :: json
  depdate_raw :: json
  retdate_raw :: json
  depdate :: "string option"
  retdate :: "string option"
  adults :: int
  children :: int
  infants :: int
  cabin :: string
  airline :: json

record segment =
  seg_depfrom :: json
  seg_arrto :: json
  seg_depdate :: string

record payload =
  pl_adults :: int
  pl_children :: int
  pl_infants :: int
  pl_cabin :: string
  pl_stops :: bool
  pl_airline_include :: json
  pl_ages :: "json list"
  pl_segments :: "segment list"

record incomplete_body =
  ib_message :: string
  ib_missing_fields :: "string list"
  ib_follow_up :: "string list"
  ib_parsed_from :: json
  ib_parsed_to :: json
  ib_parsed_depdate :: json

text \<open>
  The JSON bodies the handler returns: \<^verbatim>\<open>{"error": <text>}\<close> with a fixed text,
  \<^verbatim>\<open>{"error": str(e)}\<close> for a caught exception \<open>e\<close>, the body with status
  \<^verbatim>\<open>"incomplete"\<close> and the body with status \<^verbatim>\<open>"complete"\<close>. A response is a body and
  the HTTP status code.
\<close>

datatype reply =
    ErrorBody string
  | ExceptionBody py_error
  | Incomplete incomplete_body
  | Complete payload

type_synonym response = "reply \<times> nat"

definition question_from :: string where
  "question_from = [CHR 0xE2, CHR 0x9C, CHR 0x88, CHR 0xEF, CHR 0xB8, CHR 0x8F] @
     '' Where are you flying *from*?''"

definition question_to :: string where
  "question_to = [CHR 0xF0, CHR 0x9F, CHR 0x9B, CHR 0xAC] @ '' Where are you flying *to*?''"

definition question_depdate :: string where
  "question_depdate = [CHR 0xF0, CHR 0x9F, CHR 0x93, CHR 0x85] @
     '' When do you want to *depart*?''"

text \<open>Lines 114 to 125: the names appended to \<^verbatim>\<open>missing_fields\<close>, each with the question
  appended to \<^verbatim>\<open>follow_up_questions\<close> in the same step.\<close>

definition missing_entries :: "locals \<Rightarrow> (string \<times> string) list" where
  "missing_entries l =
     (if is_missing (depfrom l) then [(''from'', question_from)] else []) @
     (if is_missing (arrto l) then [(''to'', question_to)] else []) @
     (if \<not> truthy (depdate_raw l) \<or> absent (depdate l)
      then [(''depdate'', question_depdate)] else [])"

definition missing_fields :: "locals \<Rightarrow> string list" where
  "missing_fields l = map fst (missing_entries l)"

definition follow_up_questions :: "locals \<Rightarrow> string list" where
  "follow_up_questions l = map snd (missing_entries l)"

text \<open>\<^verbatim>\<open>', '.join(xs)\<close>.\<close>

fun join_comma :: "string list \<Rightarrow> string" where
  "join_comma [] = []"
| "join_comma [x] = x"
| "join_comma (x # y # ys) = x @ '', '' @ join_comma (y # ys)"

text \<open>Lines 92 to 111: reading the extracted object. Each step may raise.\<close>

definition resolve_depdate :: "env \<Rightarrow> json \<Rightarrow> py_error + string option" where
  "resolve_depdate e raw = (if truthy raw then parse_date_string e raw None else Inr None)"

definition resolve_retdate :: "env \<Rightarrow> json \<Rightarrow> string option \<Rightarrow> py_error + string option" where
  "resolve_retdate e raw dep =
     (if truthy raw \<and> \<not> absent dep
      then (case dep of
              Some d \<Rightarrow> and_then (strptime_ymd d) (\<lambda>base. parse_date_string e raw (Some base))
            | None \<Rightarrow> Inr None)
      else Inr None)"

definition read_fields :: "env \<Rightarrow> json \<Rightarrow> (string \<rightharpoonup> json) \<Rightarrow> py_error + locals" where
  "read_fields e user_query parsed =
     and_then (cross_check user_query ''from'' (get parsed ''from'')) (\<lambda>v_from.
     and_then (cross_check user_query ''to'' (get parsed ''to'')) (\<lambda>v_to.
     and_then (resolve_depdate e (get parsed ''depdate'')) (\<lambda>v_depdate.
     and_then (resolve_retdate e (get parsed ''retdate'') v_depdate) (\<lambda>v_retdate.
     and_then (py_int (get_default parsed ''adults'' (JInt 1))) (\<lambda>v_adults.
     and_then (py_int (get_default parsed ''children'' (JInt 0))) (\<lambda>v_children.
     and_then (py_int (get_default parsed ''infants'' (JInt 0))) (\<lambda>v_infants.
     and_then (py_lower (get_default parsed ''cabin'' (JStr ''economy''))) (\<lambda>v_cabin.
       Inr \<lparr>depfrom = v_from, arrto = v_to,
            depdate_raw = get parsed ''depdate'', retdate_raw = get parsed ''retdate'',
            depdate = v_depdate, retdate = v_retdate,
            adults = v_adults, children = v_children, infants = v_infants,
            cabin = v_cabin,
            airline = get_default parsed ''airline_include'' (JStr [])\<rparr>))))))))"

text \<open>Lines 141 to 163: the payload, with the return segment appended when there is a
  return date.\<close>

definition build_payload :: "locals \<Rightarrow> string \<Rightarrow> payload" where
  "build_payload l dep =
     \<lparr>pl_adults = adults l, pl_children = children l, pl_infants = infants l,
      pl_cabin = cabin l, pl_stops = False, pl_airline_include = airline l, pl_ages = [],
      pl_segments =
        [\<lparr>seg_depfrom = depfrom l, seg_arrto = arrto l, seg_depdate = dep\<rparr>] @
        (case retdate l of
           Some r \<Rightarrow> (if r \<noteq> []
                      then [\<lparr>seg_depfrom = arrto l, seg_arrto = depfrom l, seg_depdate = r\<rparr>]
                      else [])
         | None \<Rightarrow> [])\<rparr>"

text \<open>Lines 113 to 168: the body of the answer, from the local variables. The payload is
  built only past the check of the missing fields, where \<^verbatim>\<open>depdate\<close> is a string.\<close>

definition respond :: "locals \<Rightarrow> reply" where
  "respond l =
     (if missing_fields l \<noteq> []
      then Incomplete
             \<lparr>ib_message = ''Missing fields: '' @ join_comma (missing_fields l),
              ib_missing_fields = missing_fields l,
              ib_follow_up = follow_up_questions l,
              ib_parsed_from = depfrom l,
              ib_parsed_to = arrto l,
              ib_parsed_depdate = (if truthy (depdate_raw l) then depdate_raw l else JNull)\<rparr>
      else Complete (build_payload l (case depdate l of Some d \<Rightarrow> d | None \<Rightarrow> [])))"

text \<open>Lines 86 to 90: the object in the model's text, or what went wrong: no span
  (\<open>Inl None\<close>), or the exception of \<^verbatim>\<open>json.loads\<close>.\<close>

definition extract_json :: "env \<Rightarrow> string \<Rightarrow> py_error option + (string \<rightharpoonup> json)" where
  "extract_json e content =
     (case json_span content of
        None \<Rightarrow> Inl None
      | Some span \<Rightarrow> (case json_loads e span of Inl err \<Rightarrow> Inl (Some err) | Inr parsed \<Rightarrow> Inr parsed))"

text \<open>
  \<^verbatim>\<open>parse_query\<close>, from the value of \<^verbatim>\<open>data.get("query")\<close> and the number of calls made
  to the model so far; it returns the response and the number of calls made afterwards.
\<close>

definition parse_query :: "env \<Rightarrow> json \<Rightarrow> nat \<Rightarrow> response \<times> nat" where
  "parse_query e user_query n =
     (if \<not> truthy user_query then ((ErrorBody (''Missing '' @ [CHR 0x27] @ ''query'' @ [CHR 0x27]), 400), n)
      else (case chat e n (build_prompt user_query) of
              Inl err \<Rightarrow> ((ExceptionBody err, 500), Suc n)
            | Inr text \<Rightarrow>
                (case extract_json e (strip text) of
                   Inl None \<Rightarrow> ((ErrorBody ''Invalid JSON in model output'', 500), Suc n)
                 | Inl (Some err) \<Rightarrow> ((ExceptionBody err, 500), Suc n)
                 | Inr parsed \<Rightarrow>
                     (case read_fields e user_query parsed of
                        Inl err \<Rightarrow> ((ExceptionBody err, 500), Suc n)
                      | Inr l \<Rightarrow> ((respond l, 200), Suc n)))))"

section \<open>Sample inputs\<close>

text \<open>An environment in which the model cannot be reached and neither date parser
  recognises anything, at ten o'clock on 28 February 2024.\<close>

definition quiet_env :: env where
  "quiet_env =
     \<lparr>now = \<lparr>dt_year = 2024, dt_month = 2, dt_day = 28, dt_tod = 36000000000\<rparr>,
      chat = (\<lambda>n p. Inl CompleterError),
      json_loads = (\<lambda>s. Inl JSONDecodeError),
      cal_parse = (\<lambda>s d. ((0, 0, 0, 0, 0, 0), 0)),
      fuzzy_parse = (\<lambda>s d. None)\<rparr>"

text \<open>\<^verbatim>\<open>datetime.max\<close>'s day, at midnight.\<close>

definition last_day :: datetime where
  "last_day = \<lparr>dt_year = 9999, dt_month = 12, dt_day = 31, dt_tod = 0\<rparr>"

text \<open>An environment whose model answers every prompt with a text around one brace span,
  which \<^verbatim>\<open>json.loads\<close> decodes to the given keys and values; the date parsers recognise
  nothing.\<close>

definition decoded_env :: "(string \<times> json) list \<Rightarrow> env" where
  "decoded_env kvs =
     quiet_env\<lparr>chat := (\<lambda>n p. Inr ''Here you go: {...} Anything else?''),
               json_loads := (\<lambda>s. Inr (map_of kvs))\<rparr>"

text \<open>An environment whose model has no braces in its first answer and a decodable
  object in every later one.\<close>

definition flaky_env :: env where
  "flaky_env =
     quiet_env\<lparr>chat := (\<lambda>n p. if n = 0 then Inr ''Sorry, I did not get that.''
                               else Inr ''Sure! {...} Let me know.''),
               json_loads := (\<lambda>s. Inr (map_of [(''from'', JStr ''Delhi''),
                                                   (''to'', JStr ''Mumbai'')]))\<rparr>"

text \<open>An environment whose model answers with braces around a text that is not JSON.\<close>

definition garbled_env :: env where
  "garbled_env =
     quiet_env\<lparr>chat := (\<lambda>n p. Inr ''Okay {from: Delhi} done''),
               json_loads := (\<lambda>s. Inl JSONDecodeError)\<rparr>"

section \<open>Properties of the field validator\<close>

text \<open>
  Claim C6. \<^verbatim>\<open>is_missing(value)\<close> is true exactly when the value is \<^verbatim>\<open>None\<close> or its string
  form, trimmed and lowercased, is the empty string, \<^verbatim>\<open>none\<close>, \<^verbatim>\<open>not provided\<close> or one of
  the two city sentinels; it is false for every other string.
\<close>

theorem is_missing_exactly:
  "(is_missing v \<longleftrightarrow>
      v = JNull \<or>
      lower (strip (py_str v)) = '''' \<or>
      lower (strip (py_str v)) = ''none'' \<or>
      lower (strip (py_str v)) = ''not provided'' \<or>
      lower (strip (py_str v)) = ''departure city (not provided)'' \<or>
      lower (strip (py_str v)) = ''arrival city (not provided)'') \<and>
   (is_missing (JStr s) \<longleftrightarrow>
      lower (strip s) \<in> {'''', ''none'', ''not provided'', ''departure city (not provided)'',
                           ''arrival city (not provided)''})"
  by (simp add: is_missing_def Let_def)

lemma is_missing_examples:
  "is_missing JNull" "is_missing (JStr '''')" "is_missing (JStr ''  Not Provided '')"
  "is_missing (JStr ''NONE'')" "is_missing (JStr ''Departure City (Not Provided)'')"
  "is_missing (JStr ''arrival city (not provided)'')"
  "\<not> is_missing (JStr ''Delhi'')" "\<not> is_missing (JInt 0)" "\<not> is_missing (JBool False)"
  by code_simp+

section \<open>Evaluation of the string and date functions\<close>

lemma days_later_numeral:
  "days_later d (numeral k) = and_then (next_day d) (\<lambda>d'. days_later d' (pred_numeral k))"
  by (simp add: numeral_eq_Suc)

lemma days_later_1: "days_later d 1 = next_day d"
  by (cases "next_day d") (simp_all add: and_then_def)

lemma eq_char_of_iff: "c = char_of n \<longleftrightarrow> take_bit 8 n = (of_char c :: nat)"
  using char_of_eq_iff [of n c] by auto

lemmas str_eval = eq_char_of_iff lower_def lower_char_def is_upper_def strip_def is_space_def is_digit_def
  contains_def digit_val_def digit_char_def nat_of_digits_def char_of_eq_iff sublist_code(3)
  match_after_days_def Let_def

lemmas date_eval = add_days_def and_then_def next_day_def days_in_month_def is_leap_def
  formatted_def strftime_ymd_def pad2_def pad4_def days_later_numeral days_later_1


section \<open>Properties of the date normaliser\<close>

lemma strip_lower_Nil [simp]: "strip (lower []) = []"
  by (simp add: strip_def lower_def)

lemma contains_Nil [simp]: "contains (c # cs) [] = False"
  by (simp add: contains_def)

lemma sublist_suffix_part: "sublist (xs @ ys) zs \<Longrightarrow> sublist ys zs"
  unfolding sublist_def by (metis append.assoc)

lemma dropWhile_keeps_part:
  assumes "t \<noteq> []" and "\<not> P (hd t)"
  shows "\<exists>ps'. dropWhile P (ps @ t @ ss) = ps' @ t @ ss"
proof (cases "\<forall>x\<in>set ps. P x")
  case True
  from assms obtain a t' where "t = a # t'" and "\<not> P a" by (cases t) auto
  with True have "dropWhile P (ps @ t @ ss) = [] @ t @ ss" by (simp add: dropWhile_append)
  then show ?thesis by blast
next
  case False
  then have "dropWhile P (ps @ t @ ss) = dropWhile P ps @ t @ ss"
    by (auto simp: dropWhile_append)
  then show ?thesis by blast
qed

lemma sublist_strip:
  assumes "sublist t s" and "t \<noteq> []" and "\<not> is_space (hd t)" and "\<not> is_space (last t)"
  shows "sublist t (strip s)"
proof -
  from assms(1) obtain ps ss where s: "s = ps @ t @ ss" by (auto simp: sublist_def)
  obtain ps' where 1: "dropWhile is_space s = ps' @ t @ ss"
    using dropWhile_keeps_part [of t is_space ps ss] assms(2,3) s by blast
  have "rev t \<noteq> []" and "\<not> is_space (hd (rev t))"
    using assms(2,4) by (simp_all add: hd_rev)
  then obtain ss'
    where 2: "dropWhile is_space (rev ss @ rev t @ rev ps') = ss' @ rev t @ rev ps'"
    using dropWhile_keeps_part [of "rev t" is_space "rev ss" "rev ps'"] by blast
  have "strip s = ps' @ t @ rev ss'" by (simp add: strip_def 1 2)
  then show ?thesis by (simp add: sublist_def) blast
qed

lemma strip_sublist: "sublist (strip s) s"
proof -
  have "sublist (rev (dropWhile is_space (rev (dropWhile is_space s)))) (dropWhile is_space s)"
    by (simp add: sublist_rev_left)
  then show ?thesis
    unfolding strip_def using sublist_dropWhile sublist_order.order.trans by blast
qed

lemma contains_strip_iff:
  assumes "t \<noteq> []" and "\<not> is_space (hd t)" and "\<not> is_space (last t)"
  shows "contains t (strip s) \<longleftrightarrow> contains t s"
  unfolding contains_def
  using sublist_strip [OF _ assms] strip_sublist sublist_order.order.trans by blast

lemma contains_tomorrow_strip [simp]:
  "contains ''tomorrow'' (strip s) = contains ''tomorrow'' s"
  "contains ''day after tomorrow'' (strip s) = contains ''day after tomorrow'' s"
  by (rule contains_strip_iff; simp add: is_space_def)+

lemma day_after_tomorrow_has_tomorrow:
  "contains ''day after tomorrow'' s \<Longrightarrow> contains ''tomorrow'' s"
proof -
  assume "contains ''day after tomorrow'' s"
  then have "sublist (''day after '' @ ''tomorrow'') s" by (simp add: contains_def)
  then show ?thesis unfolding contains_def by (rule sublist_suffix_part)
qed

lemma search_after_days_start:
  assumes "ds \<noteq> []" and "list_all is_digit ds"
  shows "search_after_days (''after '' @ ds @ '' day'' @ rest) = Some ds"
proof -
  have sp: "\<not> is_digit CHR '' ''" by (simp add: is_digit_def)
  have "takeWhile is_digit (ds @ '' day'' @ rest) = ds"
    using assms(2) sp by (simp add: takeWhile_append list_all_iff)
  moreover have "dropWhile is_digit (ds @ '' day'' @ rest) = '' day'' @ rest"
    using assms(2) sp by (simp add: dropWhile_append list_all_iff)
  ultimately have "match_after_days (''after '' @ ds @ '' day'' @ rest) = Some ds"
    using assms(1) by (simp add: match_after_days_def)
  then show ?thesis by simp
qed

text \<open>
  Claim C4, as the code has it. A phrase that contains \<^verbatim>\<open>tomorrow\<close> in any letter case
  resolves by the two literal rules alone, whatever the two parsers would say: to the
  reference date plus two days when it contains \<^verbatim>\<open>day after tomorrow\<close>, tried first, and
  plus one day otherwise. When that day lies after 9999-12-31 the addition raises
  \<^verbatim>\<open>OverflowError\<close> and there is no result.
\<close>

theorem tomorrow_rules:
  assumes "contains ''tomorrow'' (lower s)"
  shows "parse_date_string e (JStr s) base =
           formatted (add_days (case base of Some b \<Rightarrow> b | None \<Rightarrow> now e)
                        (if contains ''day after tomorrow'' (lower s) then 2 else 1))"
proof -
  from assms have "s \<noteq> []" by (cases s) (auto simp: lower_def)
  with assms show ?thesis by (simp add: parse_date_string_def Let_def)
qed

theorem tomorrow_rules_witness:
  "contains ''tomorrow'' (lower ''Tomorrow morning'') \<and>
   parse_date_string quiet_env (JStr ''Tomorrow morning'') None = Inr (Some ''2024-02-29'') \<and>
   contains ''tomorrow'' (lower ''the Day After Tomorrow'') \<and>
   parse_date_string quiet_env (JStr ''the Day After Tomorrow'') None = Inr (Some ''2024-03-01'')"
  using tomorrow_rules [of "''Tomorrow morning''" quiet_env None]
    tomorrow_rules [of "''the Day After Tomorrow''" quiet_env None]
  by (simp add: str_eval date_eval quiet_env_def)

text \<open>The claim as stated, for every reference date, fails on the last day of the
  calendar: the phrase \<^verbatim>\<open>tomorrow\<close> raises instead of resolving.\<close>

theorem tomorrow_overflow_counterexample:
  "valid_datetime last_day \<and> contains ''tomorrow'' (lower ''tomorrow'') \<and>
   parse_date_string quiet_env (JStr ''tomorrow'') (Some last_day) = Inl OverflowError"
  by (simp add: parse_date_string_def str_eval date_eval last_day_def valid_datetime_def)




section \<open>Dates and their written form\<close>










lemma and_then_Inr_iff: "and_then r f = Inr y \<longleftrightarrow> (\<exists>x. r = Inr x \<and> f x = Inr y)"
  by (cases r) (simp_all add: and_then_def)







lemma formatted_Some:
  "formatted r = Inr (Some s) \<longleftrightarrow> (\<exists>d. r = Inr d \<and> s = strftime_ymd d)"
  by (cases r) (auto simp: formatted_def and_then_def)

lemma parse_date_string_not_str:
  "parse_date_string e x base = Inr (Some s) \<Longrightarrow> \<exists>p. x = JStr p \<and> p \<noteq> []"
  by (cases x) (auto simp: parse_date_string_def split: if_splits)

lemma parse_date_string_str:
  "p \<noteq> [] \<Longrightarrow> parse_date_string e (JStr p) base =
     (let today = (case base of Some b \<Rightarrow> b | None \<Rightarrow> now e)
      in if contains ''day after tomorrow'' (lower p) then formatted (add_days today 2)
         else if contains ''tomorrow'' (lower p) then formatted (add_days today 1)
         else case search_after_days (strip (lower p)) of
                Some ds \<Rightarrow> formatted (add_days today (nat_of_digits ds))
              | None \<Rightarrow>
                  (case cal_parse e p today of
                     (time_struct, parse_status) \<Rightarrow>
                       if parse_status \<noteq> 0 then formatted (mk_datetime time_struct)
                       else (case fuzzy_parse e p today of
                               Some d \<Rightarrow> Inr (Some (strftime_ymd d))
                             | None \<Rightarrow> Inr None)))"
  by (simp add: parse_date_string_def Let_def)


section \<open>Properties of the response extractor\<close>

lemma json_span_Some:
  assumes "json_span c = Some sp"
  shows "\<exists>pre mid post. c = pre @ sp @ post \<and> sp = CHR 0x7B # mid @ [CHR 0x7D] \<and>
           CHR 0x7B \<notin> set pre \<and> CHR 0x7D \<notin> set post"
proof -
  define fo where "fo = dropWhile (\<lambda>x. x \<noteq> CHR 0x7B) c"
  define pre where "pre = takeWhile (\<lambda>x. x \<noteq> CHR 0x7B) c"
  define post where "post = rev (takeWhile (\<lambda>x. x \<noteq> CHR 0x7D) (rev fo))"
  from assms have sp: "sp = rev (dropWhile (\<lambda>x. x \<noteq> CHR 0x7D) (rev fo))" and ne: "sp \<noteq> []"
    by (auto simp: json_span_def Let_def fo_def split: if_splits)
  have c: "c = pre @ fo" by (simp add: pre_def fo_def)
  have "rev fo = rev post @ rev sp" by (simp add: post_def sp)
  then have "rev (rev fo) = rev (rev post @ rev sp)" by simp
  then have fo: "fo = sp @ post" by simp
  have pre: "CHR 0x7B \<notin> set pre" unfolding pre_def by (auto dest: set_takeWhileD)
  have post: "CHR 0x7D \<notin> set post" unfolding post_def by (auto dest: set_takeWhileD)
  from ne fo have "fo \<noteq> []" by simp
  then have "hd fo = CHR 0x7B"
    unfolding fo_def using hd_dropWhile [of "\<lambda>x. x \<noteq> CHR 0x7B" c] by simp
  with ne fo have h: "hd sp = CHR 0x7B" by (cases sp) simp_all
  from ne have "dropWhile (\<lambda>x. x \<noteq> CHR 0x7D) (rev fo) \<noteq> []" by (simp add: sp)
  then have "hd (dropWhile (\<lambda>x. x \<noteq> CHR 0x7D) (rev fo)) = CHR 0x7D"
    using hd_dropWhile [of "\<lambda>x. x \<noteq> CHR 0x7D" "rev fo"] by simp
  with ne have l: "last sp = CHR 0x7D" by (simp add: sp last_rev)
  from ne h obtain t where t: "sp = CHR 0x7B # t" by (cases sp) auto
  with l have tne: "t \<noteq> []" by auto
  with t l have "last t = CHR 0x7D" by simp
  with tne have "t = butlast t @ [CHR 0x7D]" using append_butlast_last_id [of t] by simp
  with t have "sp = CHR 0x7B # butlast t @ [CHR 0x7D]" by simp
  then obtain mid where "sp = CHR 0x7B # mid @ [CHR 0x7D]" ..
  with c fo pre post show ?thesis by auto
qed

lemma json_span_None:
  "json_span c = None \<longleftrightarrow>
     \<not> (\<exists>pre mid post. c = pre @ CHR 0x7B # mid @ CHR 0x7D # post)"
proof
  assume n: "json_span c = None"
  show "\<not> (\<exists>pre mid post. c = pre @ CHR 0x7B # mid @ CHR 0x7D # post)"
  proof
    assume "\<exists>pre mid post. c = pre @ CHR 0x7B # mid @ CHR 0x7D # post"
    then obtain pre mid post where c: "c = pre @ CHR 0x7B # mid @ CHR 0x7D # post" by blast
    define fo where "fo = dropWhile (\<lambda>x. x \<noteq> CHR 0x7B) c"
    have "\<exists>p'. fo = p' @ CHR 0x7B # mid @ CHR 0x7D # post"
      unfolding fo_def c by (cases "\<forall>x\<in>set pre. x \<noteq> CHR 0x7B") (auto simp: dropWhile_append)
    then have "CHR 0x7D \<in> set (rev fo)" by auto
    then have "dropWhile (\<lambda>x. x \<noteq> CHR 0x7D) (rev fo) \<noteq> []"
      by (auto simp: dropWhile_eq_Nil_conv)
    then have "rev (dropWhile (\<lambda>x. x \<noteq> CHR 0x7D) (rev fo)) \<noteq> []" by simp
    then have "json_span c \<noteq> None" unfolding json_span_def Let_def fo_def by simp
    with n show False by simp
  qed
next
  assume a: "\<not> (\<exists>pre mid post. c = pre @ CHR 0x7B # mid @ CHR 0x7D # post)"
  show "json_span c = None"
  proof (cases "json_span c")
    case None
    then show ?thesis .
  next
    case (Some sp)
    from json_span_Some [OF this] obtain pre mid post
      where "c = pre @ sp @ post" and "sp = CHR 0x7B # mid @ [CHR 0x7D]" by blast
    then have "c = pre @ CHR 0x7B # mid @ CHR 0x7D # post" by simp
    with a show ?thesis by blast
  qed
qed

section \<open>Properties of the request handler\<close>

lemmas handler_eval = parse_query_def extract_json_def json_span_def read_fields_def
  get_def get_default_def cross_check_def resolve_depdate_def resolve_retdate_def
  respond_def missing_fields_def follow_up_questions_def missing_entries_def is_missing_def
  build_payload_def absent_def parse_date_string_def strptime_ymd_def valid_datetime_def
  decoded_env_def quiet_env_def flaky_env_def garbled_env_def int_of_string_def

lemma read_fields_Inr:
  assumes "read_fields e q parsed = Inr l"
  shows "cross_check q ''from'' (get parsed ''from'') = Inr (depfrom l)"
    and "cross_check q ''to'' (get parsed ''to'') = Inr (arrto l)"
    and "depdate_raw l = get parsed ''depdate''"
    and "retdate_raw l = get parsed ''retdate''"
    and "resolve_depdate e (get parsed ''depdate'') = Inr (depdate l)"
    and "resolve_retdate e (get parsed ''retdate'') (depdate l) = Inr (retdate l)"
    and "py_int (get_default parsed ''adults'' (JInt 1)) = Inr (adults l)"
    and "py_int (get_default parsed ''children'' (JInt 0)) = Inr (children l)"
    and "py_int (get_default parsed ''infants'' (JInt 0)) = Inr (infants l)"
    and "py_lower (get_default parsed ''cabin'' (JStr ''economy'')) = Inr (cabin l)"
    and "airline l = get_default parsed ''airline_include'' (JStr [])"
  using assms by (auto simp: read_fields_def and_then_def split: sum.splits)

lemma parse_query_reached:
  assumes "truthy q" and "chat e n (build_prompt q) = Inr text"
  shows "parse_query e q n =
           (case extract_json e (strip text) of
              Inl None \<Rightarrow> ((ErrorBody ''Invalid JSON in model output'', 500), Suc n)
            | Inl (Some err) \<Rightarrow> ((ExceptionBody err, 500), Suc n)
            | Inr parsed \<Rightarrow>
                (case read_fields e q parsed of
                   Inl err \<Rightarrow> ((ExceptionBody err, 500), Suc n)
                 | Inr l \<Rightarrow> ((respond l, 200), Suc n)))"
  using assms by (simp add: parse_query_def)

text \<open>
  Claim C8. The response extractor takes the span that begins at the first opening brace of
  the model's text and ends at its last closing brace, and hands it to \<^verbatim>\<open>json.loads\<close>.
  When the text has no opening brace followed by a closing brace, or \<^verbatim>\<open>json.loads\<close>
  raises on the span, the request ends in an error response with status 500, after the one
  call to the model that it made.
\<close>

theorem response_extractor:
  "(case json_span content of
      None \<Rightarrow> \<not> (\<exists>pre mid post. content = pre @ CHR 0x7B # mid @ CHR 0x7D # post)
    | Some sp \<Rightarrow>
        (\<exists>pre mid post. content = pre @ sp @ post \<and> sp = CHR 0x7B # mid @ [CHR 0x7D] \<and>
           CHR 0x7B \<notin> set pre \<and> CHR 0x7D \<notin> set post) \<and>
        extract_json e content =
          (case json_loads e sp of Inl err \<Rightarrow> Inl (Some err) | Inr parsed \<Rightarrow> Inr parsed)) \<and>
   (truthy q \<longrightarrow> chat e n (build_prompt q) = Inr text \<longrightarrow>
      (json_span (strip text) = None \<longrightarrow>
         parse_query e q n = ((ErrorBody ''Invalid JSON in model output'', 500), Suc n)) \<and>
      (\<forall>sp err. json_span (strip text) = Some sp \<longrightarrow> json_loads e sp = Inl err \<longrightarrow>
         parse_query e q n = ((ExceptionBody err, 500), Suc n)))"
proof -
  have 1: "case json_span content of
      None \<Rightarrow> \<not> (\<exists>pre mid post. content = pre @ CHR 0x7B # mid @ CHR 0x7D # post)
    | Some sp \<Rightarrow>
        (\<exists>pre mid post. content = pre @ sp @ post \<and> sp = CHR 0x7B # mid @ [CHR 0x7D] \<and>
           CHR 0x7B \<notin> set pre \<and> CHR 0x7D \<notin> set post) \<and>
        extract_json e content =
          (case json_loads e sp of Inl err \<Rightarrow> Inl (Some err) | Inr parsed \<Rightarrow> Inr parsed)"
  proof (cases "json_span content")
    case None
    then show ?thesis using json_span_None [of content] by simp
  next
    case (Some sp)
    then show ?thesis using json_span_Some [OF Some] by (simp add: extract_json_def)
  qed
  have 2: "parse_query e q n = ((ErrorBody ''Invalid JSON in model output'', 500), Suc n)"
    if "truthy q" "chat e n (build_prompt q) = Inr text" "json_span (strip text) = None"
    using that by (simp add: parse_query_reached extract_json_def)
  have 3: "parse_query e q n = ((ExceptionBody err, 500), Suc n)"
    if "truthy q" "chat e n (build_prompt q) = Inr text" "json_span (strip text) = Some sp"
      "json_loads e sp = Inl err" for sp err
    using that by (simp add: parse_query_reached extract_json_def)
  from 1 2 3 show ?thesis by blast
qed

theorem response_extractor_witness:
  "json_span ''Sure! {...} Let me know.'' = Some ''{...}'' \<and>
   json_span ''Sorry, I did not get that.'' = None \<and>
   parse_query flaky_env (JStr ''Fly me to Mumbai'') 0 =
     ((ErrorBody ''Invalid JSON in model output'', 500), 1) \<and>
   parse_query garbled_env (JStr ''Fly me to Mumbai'') 0 =
     ((ExceptionBody JSONDecodeError, 500), 1)"
  using response_extractor [of "''Sure! {...} Let me know.''" flaky_env "JStr ''Fly me to Mumbai''" 0
      "''Sorry, I did not get that.''"]
    response_extractor [of "''Sorry, I did not get that.''" garbled_env "JStr ''Fly me to Mumbai''" 0
      "''Okay {from: Delhi} done''"]
  by (simp add: json_span_def strip_def is_space_def flaky_env_def garbled_env_def quiet_env_def)


lemma cross_check_present_word:
  "contains w (lower q) \<Longrightarrow> cross_check (JStr q) w v = Inr v"
  by (simp add: cross_check_def and_then_def)





lemma read_fields_coercion_fails:
  assumes k: "k = ''adults'' \<or> k = ''children'' \<or> k = ''infants''"
    and v: "parsed k = Some v" and err: "py_int v = Inl err"
  shows "\<exists>err'. read_fields e q parsed = Inl err'"
proof (cases "read_fields e q parsed")
  case (Inl a)
  then show ?thesis by blast
next
  case (Inr l)
  note r = read_fields_Inr(7,8,9) [OF Inr]
  from k v err r have False by (auto simp: get_default_def)
  then show ?thesis ..
qed

text \<open>
  Claim C10. When the extracted object has the key \<^verbatim>\<open>adults\<close>, \<^verbatim>\<open>children\<close> or
  \<^verbatim>\<open>infants\<close> with a value that \<^verbatim>\<open>int()\<close> refuses, such as \<^verbatim>\<open>null\<close>, no default is
  applied: reading the fields raises and the request ends in the error response with status
  500. The defaults 1, 0 and 0 are used only for a key that the object does not have; a key
  that is there is converted.
\<close>

theorem passenger_count_coercion:
  "py_int JNull = Inl TypeError \<and>
   ((k = ''adults'' \<or> k = ''children'' \<or> k = ''infants'') \<longrightarrow> parsed k = Some v \<longrightarrow>
      py_int v = Inl err \<longrightarrow>
        (\<exists>err'. read_fields e q parsed = Inl err') \<and>
        (truthy q \<longrightarrow> chat e n (build_prompt q) = Inr text \<longrightarrow>
           extract_json e (strip text) = Inr parsed \<longrightarrow>
             (\<exists>err'. parse_query e q n = ((ExceptionBody err', 500), Suc n)))) \<and>
   (cross_check q ''from'' (get parsed ''from'') = Inr a \<longrightarrow>
    cross_check q ''to'' (get parsed ''to'') = Inr b \<longrightarrow>
    resolve_depdate e (get parsed ''depdate'') = Inr d \<longrightarrow>
    resolve_retdate e (get parsed ''retdate'') d = Inr r \<longrightarrow>
    parsed ''adults'' = Some v \<longrightarrow> py_int v = Inl err \<longrightarrow>
      read_fields e q parsed = Inl err) \<and>
   (read_fields e q parsed = Inr l \<longrightarrow>
      (case parsed ''adults'' of None \<Rightarrow> adults l = 1 | Some x \<Rightarrow> py_int x = Inr (adults l)) \<and>
      (case parsed ''children'' of None \<Rightarrow> children l = 0 | Some x \<Rightarrow> py_int x = Inr (children l)) \<and>
      (case parsed ''infants'' of None \<Rightarrow> infants l = 0 | Some x \<Rightarrow> py_int x = Inr (infants l)))"
proof -
  have 1: "\<exists>err'. parse_query e q n = ((ExceptionBody err', 500), Suc n)"
    if h: "k = ''adults'' \<or> k = ''children'' \<or> k = ''infants''" "parsed k = Some v"
      "py_int v = Inl err" "truthy q" "chat e n (build_prompt q) = Inr text"
      "extract_json e (strip text) = Inr parsed"
  proof -
    obtain err' where "read_fields e q parsed = Inl err'"
      using read_fields_coercion_fails [of k parsed v err e q] h(1,2,3) by blast
    with h(4,5,6) show ?thesis by (simp add: parse_query_reached)
  qed
  have 2: "read_fields e q parsed = Inl err"
    if "cross_check q ''from'' (get parsed ''from'') = Inr a"
      "cross_check q ''to'' (get parsed ''to'') = Inr b"
      "resolve_depdate e (get parsed ''depdate'') = Inr d"
      "resolve_retdate e (get parsed ''retdate'') d = Inr r"
      "parsed ''adults'' = Some v" "py_int v = Inl err"
    using that by (simp add: read_fields_def and_then_def get_default_def)
  have 3: "(case parsed ''adults'' of None \<Rightarrow> adults l = 1 | Some x \<Rightarrow> py_int x = Inr (adults l)) \<and>
      (case parsed ''children'' of None \<Rightarrow> children l = 0 | Some x \<Rightarrow> py_int x = Inr (children l)) \<and>
      (case parsed ''infants'' of None \<Rightarrow> infants l = 0 | Some x \<Rightarrow> py_int x = Inr (infants l))"
    if "read_fields e q parsed = Inr l"
    using read_fields_Inr(7,8,9) [OF that]
    by (auto simp: get_default_def split: option.splits)
  from 1 2 3 read_fields_coercion_fails [of k parsed v err e q] show ?thesis
    by (simp (no_asm_simp))
qed

theorem passenger_count_coercion_witness:
  "parse_query (decoded_env [(''from'', JStr ''Delhi''), (''to'', JStr ''Mumbai''),
       (''depdate'', JStr ''tomorrow''), (''adults'', JNull)])
     (JStr ''Fly from Delhi to Mumbai tomorrow'') 0 = ((ExceptionBody TypeError, 500), 1) \<and>
   read_fields (decoded_env []) (JStr ''Fly from Delhi to Mumbai tomorrow'')
     (map_of [(''adults'', JStr ''2''), (''infants'', JInt 1)]) =
     Inr \<lparr>depfrom = JNull, arrto = JNull, depdate_raw = JNull, retdate_raw = JNull,
          depdate = None, retdate = None, adults = 2, children = 0, infants = 1,
          cabin = ''economy'', airline = JStr []\<rparr>"
  using passenger_count_coercion [of "''adults''"
      "map_of [(''from'', JStr ''Delhi''), (''to'', JStr ''Mumbai''),
         (''depdate'', JStr ''tomorrow''), (''adults'', JNull)]" JNull TypeError
      "decoded_env [(''from'', JStr ''Delhi''), (''to'', JStr ''Mumbai''),
         (''depdate'', JStr ''tomorrow''), (''adults'', JNull)]"
      "JStr ''Fly from Delhi to Mumbai tomorrow''" 0 "''Here you go: {...} Anything else?''"]
    passenger_count_coercion [where e = "decoded_env []"
      and q = "JStr ''Fly from Delhi to Mumbai tomorrow''"
      and parsed = "map_of [(''adults'', JStr ''2''), (''infants'', JInt 1)]"
      and l = "\<lparr>depfrom = JNull, arrto = JNull, depdate_raw = JNull, retdate_raw = JNull,
          depdate = None, retdate = None, adults = 2, children = 0, infants = 1,
          cabin = ''economy'', airline = JStr []\<rparr>"]
  by (simp add: handler_eval str_eval date_eval and_then_def)

lemma strftime_ymd_not_empty: "strftime_ymd d \<noteq> []"
  by (simp add: strftime_ymd_def pad4_def)

lemma formatted_not_empty: "formatted r = Inr (Some s) \<Longrightarrow> s \<noteq> []"
  by (auto simp: formatted_Some strftime_ymd_not_empty)

lemma parse_date_string_not_empty:
  assumes res: "parse_date_string e x base = Inr (Some s)"
  shows "s \<noteq> []"
proof -
  from parse_date_string_not_str [OF res] obtain p where x: "x = JStr p" and p: "p \<noteq> []"
    by blast
  define t where "t = (case base of Some b \<Rightarrow> b | None \<Rightarrow> now e)"
  obtain ts st where cp: "cal_parse e p t = (ts, st)" by (cases "cal_parse e p t")
  note eq = res [unfolded x parse_date_string_str [OF p], folded t_def, unfolded Let_def cp]
  show ?thesis
  proof (cases "contains ''day after tomorrow'' (lower p) \<or> contains ''tomorrow'' (lower p)
      \<or> search_after_days (strip (lower p)) \<noteq> None \<or> st \<noteq> 0")
    case True
    with eq show ?thesis
      by (auto simp: formatted_not_empty split: if_splits option.splits)
  next
    case False
    with eq obtain d where "s = strftime_ymd d" by (auto split: option.splits)
    then show ?thesis by (simp add: strftime_ymd_not_empty)
  qed
qed

lemma resolve_depdate_not_empty: "resolve_depdate e raw = Inr (Some s) \<Longrightarrow> s \<noteq> []"
  by (auto simp: resolve_depdate_def split: if_splits dest: parse_date_string_not_empty)

lemma resolve_retdate_not_empty: "resolve_retdate e raw dep = Inr (Some s) \<Longrightarrow> s \<noteq> []"
  by (auto simp: resolve_retdate_def and_then_Inr_iff
      split: if_splits option.splits dest: parse_date_string_not_empty)

lemma read_fields_dates_not_empty:
  assumes "read_fields e q parsed = Inr l"
  shows "absent (depdate l) \<longleftrightarrow> depdate l = None" and "absent (retdate l) \<longleftrightarrow> retdate l = None"
  using read_fields_Inr(5,6) [OF assms]
  by (auto simp: absent_def split: option.splits
      dest: resolve_depdate_not_empty resolve_retdate_not_empty)


lemma missing_fields_mem:
  "''from'' \<in> set (missing_fields l) \<longleftrightarrow> is_missing (depfrom l)"
  "''to'' \<in> set (missing_fields l) \<longleftrightarrow> is_missing (arrto l)"
  "''depdate'' \<in> set (missing_fields l) \<longleftrightarrow> \<not> truthy (depdate_raw l) \<or> absent (depdate l)"
  by (auto simp: missing_fields_def missing_entries_def)



lemma respond_Complete:
  assumes "respond l = Complete p"
  shows "missing_fields l = []"
    and "p = build_payload l (case depdate l of Some d \<Rightarrow> d | None \<Rightarrow> [])"
  using assms by (auto simp: respond_def split: if_splits)

lemma no_missing_fields:
  assumes "missing_fields l = []"
  shows "\<not> is_missing (depfrom l)" and "\<not> is_missing (arrto l)"
    and "truthy (depdate_raw l)" and "\<exists>d. depdate l = Some d"
  using assms
  by (auto simp: missing_fields_def missing_entries_def absent_def split: if_splits option.splits)

lemma parse_query_Complete:
  assumes "parse_query e q n = ((Complete p, st), n')"
  shows "\<exists>answer parsed l. truthy q \<and> chat e n (build_prompt q) = Inr answer \<and>
           extract_json e (strip answer) = Inr parsed \<and> read_fields e q parsed = Inr l \<and>
           respond l = Complete p \<and> st = 200 \<and> n' = Suc n"
  using assms
  by (auto simp: parse_query_def split: if_splits sum.splits option.splits)

text \<open>
  Claim C1. A response with status \<^verbatim>\<open>complete\<close> comes from fields among which none is
  missing; its payload has the outbound segment with the departure city, the arrival city
  and the departure date, followed by a second segment exactly when a return date was
  resolved, and that segment has the two cities swapped and the return date.
\<close>

theorem complete_response:
  assumes "parse_query e q n = ((Complete p, st), n')"
  shows "\<exists>answer parsed l d.
           chat e n (build_prompt q) = Inr answer \<and>
           extract_json e (strip answer) = Inr parsed \<and>
           read_fields e q parsed = Inr l \<and>
           missing_fields l = [] \<and> depdate l = Some d \<and> st = 200 \<and>
           pl_segments p =
             \<lparr>seg_depfrom = depfrom l, seg_arrto = arrto l, seg_depdate = d\<rparr> #
             (case retdate l of
                None \<Rightarrow> []
              | Some r \<Rightarrow> [\<lparr>seg_depfrom = arrto l, seg_arrto = depfrom l, seg_depdate = r\<rparr>])"
proof -
  from parse_query_Complete [OF assms] obtain answer parsed l
    where c: "chat e n (build_prompt q) = Inr answer"
      and x: "extract_json e (strip answer) = Inr parsed"
      and r: "read_fields e q parsed = Inr l"
      and resp: "respond l = Complete p" and st: "st = 200"
    by blast
  note m = respond_Complete [OF resp]
  from no_missing_fields(4) [OF m(1)] obtain d where d: "depdate l = Some d" by blast
  have ret: "retdate l = Some rr \<Longrightarrow> rr \<noteq> []" for rr
    using read_fields_dates_not_empty(2) [OF r] by (auto simp: absent_def)
  have "pl_segments p =
             \<lparr>seg_depfrom = depfrom l, seg_arrto = arrto l, seg_depdate = d\<rparr> #
             (case retdate l of
                None \<Rightarrow> []
              | Some r \<Rightarrow> [\<lparr>seg_depfrom = arrto l, seg_arrto = depfrom l, seg_depdate = r\<rparr>])"
    using m(2) d ret by (auto simp: build_payload_def split: option.splits)
  with c x r m(1) d st show ?thesis by blast
qed

theorem complete_response_witness:
  "parse_query (decoded_env [(''from'', JStr ''Delhi''), (''to'', JStr ''Mumbai''),
       (''depdate'', JStr ''after 2 days''), (''retdate'', JStr ''return after 3 days'')])
     (JStr ''Fly from Delhi to Mumbai after 2 days, return after 3 days'') 0 =
   ((Complete \<lparr>pl_adults = 1, pl_children = 0, pl_infants = 0, pl_cabin = ''economy'',
       pl_stops = False, pl_airline_include = JStr [], pl_ages = [],
       pl_segments = [\<lparr>seg_depfrom = JStr ''Delhi'', seg_arrto = JStr ''Mumbai'', seg_depdate = ''2024-03-01''\<rparr>,
                      \<lparr>seg_depfrom = JStr ''Mumbai'', seg_arrto = JStr ''Delhi'', seg_depdate = ''2024-03-04''\<rparr>]\<rparr>, 200), 1) \<and>
   (\<exists>answer parsed l d.
      chat (decoded_env [(''from'', JStr ''Delhi''), (''to'', JStr ''Mumbai''),
         (''depdate'', JStr ''after 2 days''), (''retdate'', JStr ''return after 3 days'')]) 0
        (build_prompt (JStr ''Fly from Delhi to Mumbai after 2 days, return after 3 days'')) = Inr answer \<and>
      extract_json (decoded_env [(''from'', JStr ''Delhi''), (''to'', JStr ''Mumbai''),
         (''depdate'', JStr ''after 2 days''), (''retdate'', JStr ''return after 3 days'')])
        (strip answer) = Inr parsed \<and>
      read_fields (decoded_env [(''from'', JStr ''Delhi''), (''to'', JStr ''Mumbai''),
         (''depdate'', JStr ''after 2 days''), (''retdate'', JStr ''return after 3 days'')])
        (JStr ''Fly from Delhi to Mumbai after 2 days, return after 3 days'') parsed = Inr l \<and>
      missing_fields l = [] \<and> depdate l = Some d \<and> retdate l = Some ''2024-03-04'')"
proof -
  let ?e = "decoded_env [(''from'', JStr ''Delhi''), (''to'', JStr ''Mumbai''),
       (''depdate'', JStr ''after 2 days''), (''retdate'', JStr ''return after 3 days'')]"
  let ?q = "JStr ''Fly from Delhi to Mumbai after 2 days, return after 3 days''"
  let ?p = "\<lparr>pl_adults = 1, pl_children = 0, pl_infants = 0, pl_cabin = ''economy'',
       pl_stops = False, pl_airline_include = JStr [], pl_ages = [],
       pl_segments = [\<lparr>seg_depfrom = JStr ''Delhi'', seg_arrto = JStr ''Mumbai'', seg_depdate = ''2024-03-01''\<rparr>,
                      \<lparr>seg_depfrom = JStr ''Mumbai'', seg_arrto = JStr ''Delhi'', seg_depdate = ''2024-03-04''\<rparr>]\<rparr>"
  have pq: "parse_query ?e ?q 0 = ((Complete ?p, 200), 1)"
    by (simp add: handler_eval str_eval date_eval and_then_def)
  from complete_response [OF pq] obtain answer parsed l d
    where f: "chat ?e 0 (build_prompt ?q) = Inr answer"
      "extract_json ?e (strip answer) = Inr parsed" "read_fields ?e ?q parsed = Inr l"
      "missing_fields l = []" "depdate l = Some d"
      and seg: "pl_segments ?p =
             \<lparr>seg_depfrom = depfrom l, seg_arrto = arrto l, seg_depdate = d\<rparr> #
             (case retdate l of
                None \<Rightarrow> []
              | Some r \<Rightarrow> [\<lparr>seg_depfrom = arrto l, seg_arrto = depfrom l, seg_depdate = r\<rparr>])"
    by blast
  from seg have "retdate l = Some ''2024-03-04''" by (cases "retdate l") simp_all
  with pq f show ?thesis by blast
qed

lemma strftime_ymd_tod [simp]: "strftime_ymd (d\<lparr>dt_tod := t\<rparr>) = strftime_ymd d"
  by (simp add: strftime_ymd_def)




lemma parse_date_string_all_fail:
  assumes "\<not> contains ''tomorrow'' (lower p)"
    and "search_after_days (strip (lower p)) = None"
    and "snd (cal_parse e p (case base of Some b \<Rightarrow> b | None \<Rightarrow> now e)) = 0"
    and "fuzzy_parse e p (case base of Some b \<Rightarrow> b | None \<Rightarrow> now e) = None"
  shows "parse_date_string e (JStr p) base = Inr None"
proof (cases "p = []")
  case True
  then show ?thesis by (simp add: parse_date_string_def)
next
  case False
  have dat: "\<not> contains ''day after tomorrow'' (lower p)"
    using assms(1) day_after_tomorrow_has_tomorrow by blast
  obtain ts st where cp: "cal_parse e p (case base of Some b \<Rightarrow> b | None \<Rightarrow> now e) = (ts, st)"
    by (cases "cal_parse e p (case base of Some b \<Rightarrow> b | None \<Rightarrow> now e)")
  with assms(3) have "st = 0" by simp
  with assms dat cp show ?thesis
    by (simp add: parse_date_string_str [OF False] Let_def)
qed

text \<open>
  Claim C9, as the code has it. On a phrase for which every rule fails, the fuzzy parser
  raising included, \<^verbatim>\<open>parse_date_string\<close> returns \<^verbatim>\<open>None\<close> and raises nothing. For the
  departure phrase this makes \<^verbatim>\<open>depdate\<close> a missing field of an incomplete response.
  For the return phrase it leaves the return date out: the response stays complete, with
  the outbound segment alone. Neither is an error response.
\<close>

theorem unresolved_date:
  "(\<not> contains ''tomorrow'' (lower p) \<longrightarrow>
    search_after_days (strip (lower p)) = None \<longrightarrow>
    snd (cal_parse e p (case base of Some b \<Rightarrow> b | None \<Rightarrow> now e)) = 0 \<longrightarrow>
    fuzzy_parse e p (case base of Some b \<Rightarrow> b | None \<Rightarrow> now e) = None \<longrightarrow>
      parse_date_string e (JStr p) base = Inr None) \<and>
   (read_fields e q parsed = Inr l \<longrightarrow>
      (parse_date_string e (get parsed ''depdate'') None = Inr None \<longrightarrow> depdate l = None) \<and>
      (\<forall>s d. depdate l = Some s \<longrightarrow> strptime_ymd s = Inr d \<longrightarrow>
         parse_date_string e (get parsed ''retdate'') (Some d) = Inr None \<longrightarrow>
           retdate l = None)) \<and>
   (depdate l = None \<longrightarrow>
      (\<exists>b. respond l = Incomplete b \<and> ''depdate'' \<in> set (ib_missing_fields b))) \<and>
   (retdate l = None \<longrightarrow> missing_fields l = [] \<longrightarrow>
      (\<exists>pl d. respond l = Complete pl \<and> depdate l = Some d \<and>
         pl_segments pl = [\<lparr>seg_depfrom = depfrom l, seg_arrto = arrto l, seg_depdate = d\<rparr>]))"
proof -
  have 1: "depdate l = None"
    if r: "read_fields e q parsed = Inr l"
      and n: "parse_date_string e (get parsed ''depdate'') None = Inr None"
    using read_fields_Inr(5) [OF r] n by (simp add: resolve_depdate_def split: if_splits)
  have 2: "retdate l = None"
    if r: "read_fields e q parsed = Inr l" and s: "depdate l = Some s"
      and d: "strptime_ymd s = Inr d"
      and n: "parse_date_string e (get parsed ''retdate'') (Some d) = Inr None" for s d
    using read_fields_Inr(6) [OF r] s d n
    by (simp add: resolve_retdate_def and_then_def split: if_splits)
  have 3: "\<exists>b. respond l = Incomplete b \<and> ''depdate'' \<in> set (ib_missing_fields b)"
    if "depdate l = None"
  proof -
    from that have m: "''depdate'' \<in> set (missing_fields l)"
      by (simp add: missing_fields_mem(3) absent_def)
    then have "missing_fields l \<noteq> []" by auto
    with m show ?thesis by (simp add: respond_def)
  qed
  have 4: "\<exists>pl d. respond l = Complete pl \<and> depdate l = Some d \<and>
         pl_segments pl = [\<lparr>seg_depfrom = depfrom l, seg_arrto = arrto l, seg_depdate = d\<rparr>]"
    if "retdate l = None" "missing_fields l = []"
  proof -
    from no_missing_fields(4) [OF that(2)] obtain d where "depdate l = Some d" by blast
    with that show ?thesis by (simp add: respond_def build_payload_def)
  qed
  from 1 2 3 4 parse_date_string_all_fail [of p e base] show ?thesis by blast
qed

theorem unresolved_date_witness:
  "parse_date_string quiet_env (JStr ''some time soon'') None = Inr None \<and>
   parse_query (decoded_env [(''from'', JStr ''Delhi''), (''to'', JStr ''Mumbai''),
       (''depdate'', JStr ''some time soon'')]) (JStr ''Fly from Delhi to Mumbai some time soon'') 0 =
     ((Incomplete
        \<lparr>ib_message = ''Missing fields: depdate'', ib_missing_fields = [''depdate''],
         ib_follow_up = [question_depdate], ib_parsed_from = JStr ''Delhi'',
         ib_parsed_to = JStr ''Mumbai'', ib_parsed_depdate = JStr ''some time soon''\<rparr>, 200), 1)"
  using unresolved_date [where p = "''some time soon''" and e = quiet_env and base = None]
    unresolved_date [where e = "decoded_env [(''from'', JStr ''Delhi''), (''to'', JStr ''Mumbai''),
        (''depdate'', JStr ''some time soon'')]"
      and l = "\<lparr>depfrom = JStr ''Delhi'', arrto = JStr ''Mumbai'',
          depdate_raw = JStr ''some time soon'', retdate_raw = JNull, depdate = None,
          retdate = None, adults = 1, children = 0, infants = 0, cabin = ''economy'',
          airline = JStr []\<rparr>"]
  by (simp add: handler_eval str_eval date_eval and_then_def)

text \<open>The claim as stated, for every date phrase, fails for a return phrase that no rule
  resolves: the response is complete, not incomplete.\<close>

theorem unresolved_return_date_counterexample:
  "parse_date_string quiet_env (JStr ''whenever'')
     (Some \<lparr>dt_year = 2024, dt_month = 2, dt_day = 29, dt_tod = 0\<rparr>) = Inr None \<and>
   parse_query (decoded_env [(''from'', JStr ''Delhi''), (''to'', JStr ''Mumbai''),
       (''depdate'', JStr ''tomorrow''), (''retdate'', JStr ''whenever'')])
     (JStr ''Fly from Delhi to Mumbai tomorrow, back whenever'') 0 =
   ((Complete \<lparr>pl_adults = 1, pl_children = 0, pl_infants = 0, pl_cabin = ''economy'',
       pl_stops = False, pl_airline_include = JStr [], pl_ages = [],
       pl_segments = [\<lparr>seg_depfrom = JStr ''Delhi'', seg_arrto = JStr ''Mumbai'',
                        seg_depdate = ''2024-02-29''\<rparr>]\<rparr>, 200), 1)"
  by (simp add: handler_eval str_eval date_eval and_then_def)

end
